theory Spec2Isabelle
  imports Main "HOL-Library.Word" "HOL-Library.Multiset"
begin

unbundle bit_operations_syntax

section \<open>Data model of main.go\<close>

subsection \<open>float32 values and their comparison\<close>

text \<open>
  A Go \<open>float32\<close> is an IEEE 754 binary32 value; it is kept as its 32 bits: the sign
  (bit 31), the exponent (bits 30..23) and the fraction (bits 22..0).  The ranker only
  compares probabilities, so only the order is written out.  A value is a NaN when its
  exponent is all ones and its fraction is not zero, which is to say that its magnitude
  bits exceed those of infinity (\<open>0x7F800000\<close>).  On the other values the order of the
  numbers is the order of the sign-magnitude integers, with \<open>-0\<close> and \<open>+0\<close> equal.

  The values written out below are \<open>0x3C23D70A\<close> for 0.01, \<open>0x3DCCCCCD\<close> for 0.1,
  \<open>0x3E4CCCCD\<close> for 0.2, \<open>0x3E99999A\<close> for 0.3, \<open>0x3F000000\<close> for 0.5, \<open>0x3F333333\<close> for
  0.7, \<open>0x42EA0000\<close> for 117 and \<open>0x7FC00000\<close> for a NaN (the exponent all ones and
  the top bit of the fraction set).
\<close>

type_synonym float32 = "32 word"

definition f32_mag :: "float32 \<Rightarrow> nat" where
  "f32_mag w = unat (w AND 0x7FFFFFFF)"

definition isNaN :: "float32 \<Rightarrow> bool" where
  "isNaN w \<longleftrightarrow> 0x7F800000 < f32_mag w"

definition f32_key :: "float32 \<Rightarrow> int" where
  "f32_key w = (if bit w 31 then - int (f32_mag w) else int (f32_mag w))"

text \<open>Go's \<open>a > b\<close> and \<open>a >= b\<close> on float32: false as soon as one side is a NaN.\<close>

definition f32_gt :: "float32 \<Rightarrow> float32 \<Rightarrow> bool" where
  "f32_gt a b \<longleftrightarrow> \<not> isNaN a \<and> \<not> isNaN b \<and> f32_key b < f32_key a"

definition f32_ge :: "float32 \<Rightarrow> float32 \<Rightarrow> bool" where
  "f32_ge a b \<longleftrightarrow> \<not> isNaN a \<and> \<not> isNaN b \<and> f32_key b \<le> f32_key a"


subsection \<open>Label and Labels\<close>

text \<open>\<open>type Label struct { Label string; Probability float32 }\<close> and \<open>type Labels []Label\<close>.\<close>

record Label =
  Label :: string
  Probability :: float32

type_synonym Labels = "Label list"

text \<open>
  The three methods that make \<open>Labels\<close> a \<open>sort.Interface\<close>.  \<open>Less\<close> is \<open>>\<close> on the
  probabilities, so that sorting in the order of \<open>Less\<close> puts the largest first.
  \<open>sort.Sort\<close> calls \<open>Less\<close> and \<open>Swap\<close> with indices below \<open>Len\<close> only.
\<close>

definition Len :: "Labels \<Rightarrow> nat" where
  "Len a = length a"

definition Swap :: "Labels \<Rightarrow> nat \<Rightarrow> nat \<Rightarrow> Labels" where
  "Swap a i j = a[i := a ! j, j := a ! i]"

definition Less :: "Labels \<Rightarrow> nat \<Rightarrow> nat \<Rightarrow> bool" where
  "Less a i j \<longleftrightarrow> f32_gt (Probability (a ! i)) (Probability (a ! j))"

subsection \<open>Panics\<close>

datatype panic = IndexOutOfRange | SliceBoundsOutOfRange | TypeAssertionFailed | NilDereference

text \<open>The index expression \<open>xs[i]\<close> of Go: a run-time panic when \<open>i\<close> is out of range.\<close>

definition go_index :: "'a list \<Rightarrow> nat \<Rightarrow> panic + 'a" where
  "go_index xs i = (if i < length xs then Inr (xs ! i) else Inl IndexOutOfRange)"

subsection \<open>Slices of Label\<close>

text \<open>
  A slice is a window on a backing array: \<open>slice_array\<close> holds the array from the slice's
  first element to the array's end, so its length is the capacity \<open>cap(s)\<close>, and
  \<open>slice_len\<close> is \<open>len(s)\<close>.  The nil slice has no array.  The elements a \<open>range\<close> loop
  visits are the first \<open>len(s)\<close> of the array.
\<close>

record slice =
  slice_array :: "Label list"
  slice_len :: nat

definition nil_slice :: slice where
  "nil_slice = \<lparr>slice_array = [], slice_len = 0\<rparr>"

definition cap :: "slice \<Rightarrow> nat" where
  "cap s = length (slice_array s)"

definition contents :: "slice \<Rightarrow> Label list" where
  "contents s = take (slice_len s) (slice_array s)"

definition zero_Label :: Label where
  "zero_Label = \<lparr>Label = [], Probability = 0\<rparr>"

text \<open>
  The capacity \<open>append\<close> asks for when one element is added to a full slice.  The
  language leaves it to the implementation; this is what the runtime of Go computes
  (\<open>runtime.growslice\<close>, since Go 1.18): the needed length when that exceeds twice the
  old capacity (only from capacity 0), twice the old capacity below 256 elements, and a
  growth by a quarter plus 192 from there on.  Earlier releases double up to 1024
  elements, so that all agree below 256.  The allocator may round a request up to its
  next size class; a \<open>Label\<close> takes 24 bytes (12 on a 32-bit machine), and the rounded
  sizes of one, two, four and eight of them hold no element more, so the capacities 1,
  2, 4 and 8 are exact.  Only these matter to the program: the one slice expression
  asks for 5 elements.
\<close>

definition growcap :: "nat \<Rightarrow> nat" where
  "growcap oldCap =
     (if oldCap + 1 > oldCap + oldCap then oldCap + 1
      else if oldCap < 256 then oldCap + oldCap
      else oldCap + (oldCap + 3 * 256) div 4)"

text \<open>
  \<open>append(s, x)\<close>: into the backing array when there is room, else into a fresh array of
  the grown capacity, zeroed past the copied elements.
\<close>

definition append_slice :: "slice \<Rightarrow> Label \<Rightarrow> slice" where
  "append_slice s x =
     (if slice_len s < cap s
      then \<lparr>slice_array = (slice_array s)[slice_len s := x], slice_len = slice_len s + 1\<rparr>
      else \<lparr>slice_array = contents s @ [x] @ replicate (growcap (cap s) - (slice_len s + 1)) zero_Label,
            slice_len = slice_len s + 1\<rparr>)"

text \<open>
  The slice expression \<open>s[:hi]\<close>: for a slice the upper bound is checked against the
  capacity, not the length; out of bounds is a run-time panic.
\<close>

definition slice_upto :: "slice \<Rightarrow> nat \<Rightarrow> panic + slice" where
  "slice_upto s hi = (if hi \<le> cap s then Inr (s\<lparr>slice_len := hi\<rparr>) else Inl SliceBoundsOutOfRange)"

section \<open>The library's sort\<close>

text \<open>
  \<open>sort.Sort\<close> is the standard library's and not part of the program, so it is a
  parameter \<open>srt\<close> of the ranker: the elements of a \<open>Labels\<close> value after the call, given
  those before.  Its documentation promises that it sorts in the order of \<open>Less\<close>, through
  \<open>Len\<close>, \<open>Less\<close> and \<open>Swap\<close> alone, and that the sort is not stable.  So the result is
  a rearrangement of the elements, and no later element is \<open>Less\<close> than an earlier one;
  the second needs a \<open>Less\<close> that is an ordering, which the one of \<open>Labels\<close> is when no
  probability is a NaN.
\<close>

definition no_NaN :: "Labels \<Rightarrow> bool" where
  "no_NaN a \<longleftrightarrow> list_all (\<lambda>l. \<not> isNaN (Probability l)) a"

definition ordered_by_Less :: "Labels \<Rightarrow> bool" where
  "ordered_by_Less a \<longleftrightarrow> (\<forall>j < Len a. \<forall>i < j. \<not> Less a j i)"

definition sort_contract :: "(Labels \<Rightarrow> Labels) \<Rightarrow> bool" where
  "sort_contract srt \<longleftrightarrow>
     (\<forall>a. mset (srt a) = mset a \<and> (no_NaN a \<longrightarrow> ordered_by_Less (srt a)))"

text \<open>
  One procedure that \<open>sort.Sort\<close> really runs: on at most 12 elements it is the
  package's \<open>insertionSort(data, 0, n)\<close> (preceded, in the releases before pdqsort,
  by one pass over the pairs six apart, of which there are none below 7 elements):
  \<^verbatim>\<open>
  for i := a + 1; i < b; i++ {
      for j := i; j > a && data.Less(j, j-1); j-- {
          data.Swap(j, j-1)
      }
  }\<close>
\<close>

fun insert_down :: "Labels \<Rightarrow> nat \<Rightarrow> Labels" where
  "insert_down a 0 = a"
| "insert_down a (Suc j) =
     (if Less a (Suc j) j then insert_down (Swap a (Suc j) j) j else a)"

definition insertionSort :: "Labels \<Rightarrow> Labels" where
  "insertionSort a = fold (\<lambda>i d. insert_down d i) [1 ..< Len a] a"

section \<open>The ranker\<close>

text \<open>
  \<^verbatim>\<open>
  for i, p := range probabilities {
      if i >= len(labels) { break }
      resultLabels = append(resultLabels, Label{Label: labels[i], Probability: p})
  }\<close>
  The loop at index \<open>i\<close>, with the probabilities still to visit.
\<close>

fun pair_loop :: "string list \<Rightarrow> nat \<Rightarrow> float32 list \<Rightarrow> slice \<Rightarrow> panic + slice" where
  "pair_loop labels i [] resultLabels = Inr resultLabels"
| "pair_loop labels i (p # ps) resultLabels =
     (if i \<ge> length labels then Inr resultLabels
      else case go_index labels i of
             Inl e \<Rightarrow> Inl e
           | Inr l \<Rightarrow> pair_loop labels (Suc i) ps
                        (append_slice resultLabels \<lparr>Label = l, Probability = p\<rparr>))"

text \<open>\<open>sort.Sort(Labels(resultLabels))\<close> rearranges the elements of the slice in place.\<close>

definition sort_Sort :: "(Labels \<Rightarrow> Labels) \<Rightarrow> slice \<Rightarrow> slice" where
  "sort_Sort srt s = s\<lparr>slice_array := srt (contents s) @ drop (slice_len s) (slice_array s)\<rparr>"

text \<open>The paired and sorted slice, before the last line cuts it.\<close>

definition sortedPairs :: "(Labels \<Rightarrow> Labels) \<Rightarrow> string list \<Rightarrow> float32 list \<Rightarrow> panic + slice" where
  "sortedPairs srt labels probabilities =
     (case pair_loop labels 0 probabilities nil_slice of
        Inl e \<Rightarrow> Inl e
      | Inr resultLabels \<Rightarrow> Inr (sort_Sort srt resultLabels))"

text \<open>\<open>getTopFiveLabels\<close>: the value returned is the elements of \<open>resultLabels[:5]\<close>.\<close>

definition getTopFiveLabels :: "(Labels \<Rightarrow> Labels) \<Rightarrow> string list \<Rightarrow> float32 list \<Rightarrow> panic + Label list" where
  "getTopFiveLabels srt labels probabilities =
     (case sortedPairs srt labels probabilities of
        Inl e \<Rightarrow> Inl e
      | Inr resultLabels \<Rightarrow>
          (case slice_upto resultLabels 5 of
             Inl e \<Rightarrow> Inl e
           | Inr firstFive \<Rightarrow> Inr (contents firstFive)))"

section \<open>The TensorFlow values the program handles\<close>

text \<open>
  An \<open>error\<close> is kept as its message, which is what \<open>%v\<close> prints.
\<close>

type_synonym error = string

text \<open>
  The data types \<open>tensorflow.String\<close> and \<open>tensorflow.Float\<close> that the program names, and
  \<open>Int32\<close>, the type of the two integer constants.  A tensor is its element type, its
  shape and its elements; a scalar has the empty shape.
\<close>

datatype DataType = tensorflow_Float | tensorflow_Int32 | tensorflow_String

datatype Tensor =
    StringTensor string
  | Int32Tensor "nat list" "32 word list"
  | FloatTensor "nat list" "float32 list"

fun Tensor_DataType :: "Tensor \<Rightarrow> DataType" where
  "Tensor_DataType (StringTensor _) = tensorflow_String"
| "Tensor_DataType (Int32Tensor _ _) = tensorflow_Int32"
| "Tensor_DataType (FloatTensor _ _) = tensorflow_Float"

text \<open>
  \<open>t.Value().([][]float32)\<close>: the Go value of a tensor is a \<open>[][]float32\<close> exactly for a
  float tensor of two dimensions; the type assertion panics on every other tensor.
\<close>

fun Value_float32_2 :: "Tensor \<Rightarrow> panic + float32 list list" where
  "Value_float32_2 (FloatTensor [r, c] xs) = Inr (map (\<lambda>i. take c (drop (i * c) xs)) [0 ..< r])"
| "Value_float32_2 _ = Inl TypeAssertionFailed"

text \<open>
  An \<open>Output\<close> is an operation and the index of one of its outputs.  The operation is
  named, graphs holding one operation per name; \<open>None\<close> is the nil pointer that
  \<open>Graph.Operation\<close> returns for a name the graph does not have.
\<close>

record Output =
  Op :: "string option"
  Index :: nat

datatype AttrValue = AttrType DataType | AttrInt int | AttrTensor Tensor

record Operation =
  Name :: string
  Type :: string
  Inputs :: "Output list"
  Attrs :: "(string \<times> AttrValue) list"

type_synonym Graph = "Operation list"

definition Graph_Operation :: "Graph \<Rightarrow> string \<Rightarrow> Operation option" where
  "Graph_Operation g name = find (\<lambda>operation. Name operation = name) g"

definition Operation_Output :: "Operation option \<Rightarrow> nat \<Rightarrow> Output" where
  "Operation_Output operation i = \<lparr>Op = map_option Name operation, Index = i\<rparr>"

section \<open>The operations of package op\<close>

text \<open>
  Every function of package \<open>op\<close> adds one operation to the graph of its scope and
  returns the operation's first output.  A scope is the graph under construction, which
  all sub-scopes share, and a name prefix: the root scope has the empty prefix, and
  \<open>s.SubScope("size")\<close> the prefix \<open>size\<close>.  The operation is named by its type under the
  prefix (no two operations of this program get the same name, so that the suffix that
  makes a name unique is never needed).
\<close>

definition opName :: "string \<Rightarrow> string \<Rightarrow> string" where
  "opName namespace typ = (if namespace = [] then typ else namespace @ ''/'' @ typ)"

definition AddOperation ::
  "string \<Rightarrow> string \<Rightarrow> Output list \<Rightarrow> (string \<times> AttrValue) list \<Rightarrow> Graph \<Rightarrow> Output \<times> Graph" where
  "AddOperation namespace typ inputs attrs g =
     (let operation = \<lparr>Name = opName namespace typ, Type = typ, Inputs = inputs, Attrs = attrs\<rparr>
      in (Operation_Output (Some operation) 0, g @ [operation]))"

definition op_Placeholder :: "string \<Rightarrow> DataType \<Rightarrow> Graph \<Rightarrow> Output \<times> Graph" where
  "op_Placeholder s dtype = AddOperation s ''Placeholder'' [] [(''dtype'', AttrType dtype)]"

definition op_DecodeJpegChannels :: "int \<Rightarrow> string \<times> AttrValue" where
  "op_DecodeJpegChannels v = (''channels'', AttrInt v)"

definition op_DecodeJpeg ::
  "string \<Rightarrow> Output \<Rightarrow> (string \<times> AttrValue) list \<Rightarrow> Graph \<Rightarrow> Output \<times> Graph" where
  "op_DecodeJpeg s contents' optional = AddOperation s ''DecodeJpeg'' [contents'] optional"

definition op_Cast :: "string \<Rightarrow> Output \<Rightarrow> DataType \<Rightarrow> Graph \<Rightarrow> Output \<times> Graph" where
  "op_Cast s x DstT = AddOperation s ''Cast'' [x] [(''DstT'', AttrType DstT)]"

definition op_ExpandDims :: "string \<Rightarrow> Output \<Rightarrow> Output \<Rightarrow> Graph \<Rightarrow> Output \<times> Graph" where
  "op_ExpandDims s input axis = AddOperation s ''ExpandDims'' [input, axis] []"

definition op_ResizeBilinear :: "string \<Rightarrow> Output \<Rightarrow> Output \<Rightarrow> Graph \<Rightarrow> Output \<times> Graph" where
  "op_ResizeBilinear s images size' = AddOperation s ''ResizeBilinear'' [images, size'] []"

definition op_Sub :: "string \<Rightarrow> Output \<Rightarrow> Output \<Rightarrow> Graph \<Rightarrow> Output \<times> Graph" where
  "op_Sub s x y = AddOperation s ''Sub'' [x, y] []"

definition op_Const :: "string \<Rightarrow> Tensor \<Rightarrow> Graph \<Rightarrow> Output \<times> Graph" where
  "op_Const s t =
     AddOperation s ''Const'' [] [(''dtype'', AttrType (Tensor_DataType t)), (''value'', AttrTensor t)]"

section \<open>What the program does not compute itself\<close>

text \<open>
  The body of an HTTP response as \<open>io.Copy\<close> sees it: the bytes the reader delivers
  before it stops, and the error it stops with (\<open>None\<close> when it stops at the end of the
  stream).
\<close>

record body =
  body_bytes :: string
  body_err :: "error option"

text \<open>
  The labels file as the \<open>bufio.Scanner\<close> reads it: the lines it yields, and
  \<open>scanner.Err()\<close> once it has stopped.
\<close>

record scanned =
  scan_lines :: "string list"
  scan_Err :: "error option"

text \<open>
  The command line, the network, the file system and the TensorFlow library are the
  program's surroundings; each call into them is a field of \<open>world\<close>, a function of the
  call's arguments.
  \<^item> \<open>http_Get url\<close> is \<open>http.Get(url)\<close>: an error, or the response's body.
  \<^item> \<open>ReadFile\<close> is \<open>ioutil.ReadFile\<close>, and \<open>Import model\<close> is \<open>graph.Import(model, "")\<close>
    on a new graph: an error, or the graph that was read.
  \<^item> \<open>Open_Scanner\<close> is \<open>os.Open\<close> followed by the scanner over the file.
  \<^item> \<open>NewTensor\<close> is \<open>tensorflow.NewTensor\<close> on a string.
  \<^item> \<open>scope_Err g\<close> is the error the scope has recorded while the operations \<open>g\<close> were
    added, which \<open>s.Finalize()\<close> returns.
  \<^item> \<open>Err_ports g\<close> are the two outputs that the functions of package \<open>op\<close> have handed
    back for the input and the output port when the scope holds an error; what they are
    then is the library's business.
  \<^item> \<open>NewSession g\<close> is \<open>tensorflow.NewSession(g, nil)\<close>: the error, if any; a session
    is identified by its graph.
  \<^item> \<open>Run g feeds fetches\<close> is \<open>session.Run(feeds, fetches, nil)\<close> on the session of \<open>g\<close>.
\<close>

record world =
  Args :: "string list"
  http_Get :: "string \<Rightarrow> error + body"
  ReadFile :: "string \<Rightarrow> error + string"
  Import :: "string \<Rightarrow> error + Graph"
  Open_Scanner :: "string \<Rightarrow> error + scanned"
  NewTensor :: "string \<Rightarrow> error + Tensor"
  scope_Err :: "Graph \<Rightarrow> error option"
  Err_ports :: "Graph \<Rightarrow> Output \<times> Output"
  NewSession :: "Graph \<Rightarrow> error option"
  Run :: "Graph \<Rightarrow> (Output \<times> Tensor) list \<Rightarrow> Output list \<Rightarrow> error + Tensor list"

text \<open>\<open>io.Copy(dst, src)\<close>: the buffer after the copy, the count and the error it returns.\<close>

definition io_Copy :: "string \<Rightarrow> body \<Rightarrow> string \<times> nat \<times> error option" where
  "io_Copy buf src = (buf @ body_bytes src, length (body_bytes src), body_err src)"

section \<open>getNormalizedGraph\<close>

definition graphFile :: string where
  "graphFile = ''/model/tensorflow_inception_graph.pb''"

definition labelsFile :: string where
  "labelsFile = ''/model/imagenet_comp_graph_label_strings.txt''"

text \<open>
  The operations in the order in which Go evaluates the calls: the arguments of a call
  from left to right, before the call.  The three constants are \<open>int32(0)\<close>,
  \<open>[]int32{224, 224}\<close> and \<open>float32(117)\<close>, whose bits are \<open>0x42EA0000\<close>.
\<close>

definition normalized_scope :: "Graph \<times> Output \<times> Output" where
  "normalized_scope =
     (let s = [];
          (input, g) = op_Placeholder s tensorflow_String [];
          (decode, g) = op_DecodeJpeg s input [op_DecodeJpegChannels 3] g;
          (cast, g) = op_Cast s decode tensorflow_Float g;
          (make_batch, g) = op_Const ''make_batch'' (Int32Tensor [] [0]) g;
          (expanded, g) = op_ExpandDims s cast make_batch g;
          (size', g) = op_Const ''size'' (Int32Tensor [2] [224, 224]) g;
          (resized, g) = op_ResizeBilinear s expanded size' g;
          (mean, g) = op_Const ''mean'' (FloatTensor [] [0x42EA0000]) g;
          (output, g) = op_Sub s resized mean g
      in (g, input, output))"

text \<open>
  \<open>graph, err = s.Finalize()\<close>: no graph when the scope holds an error.  Without an
  error the two ports are the outputs of the first and of the last operation.
\<close>

definition getNormalizedGraph :: "world \<Rightarrow> Graph option \<times> Output \<times> Output \<times> error option" where
  "getNormalizedGraph w =
     (case normalized_scope of (g, input, output) \<Rightarrow>
        (case scope_Err w g of
           Some err \<Rightarrow> (None, fst (Err_ports w g), snd (Err_ports w g), Some err)
         | None \<Rightarrow> (Some g, input, output, None)))"

section \<open>normalizeImage\<close>

text \<open>
  The result is a panic, or the pair the function returns: \<open>Inr (Inl err)\<close> for
  \<open>(nil, err)\<close> and \<open>Inr (Inr t)\<close> for \<open>(t, nil)\<close>.  Both results of \<open>io.Copy\<close> are dropped:
  the statement is \<open>io.Copy(&buf, body)\<close>.
\<close>

definition normalizeImage :: "world \<Rightarrow> body \<Rightarrow> panic + (error + Tensor)" where
  "normalizeImage w body =
     (case io_Copy [] body of (buf, _, _) \<Rightarrow>
      case NewTensor w buf of
        Inl err \<Rightarrow> Inr (Inl err)
      | Inr tensor \<Rightarrow>
     (case getNormalizedGraph w of
        (_, _, _, Some err) \<Rightarrow> Inr (Inl err)
      | (None, _, _, None) \<Rightarrow> Inl NilDereference
      | (Some graph, input, output, None) \<Rightarrow>
     (case NewSession w graph of
        Some err \<Rightarrow> Inr (Inl err)
      | None \<Rightarrow>
     (case Run w graph [(input, tensor)] [output] of
        Inl err \<Rightarrow> Inr (Inl err)
      | Inr normalized \<Rightarrow>
     (case go_index normalized 0 of
        Inl p \<Rightarrow> Inl p
      | Inr t \<Rightarrow> Inr (Inr t))))))"

section \<open>loadModel\<close>

text \<open>
  The three results \<open>(graph, labels, err)\<close>; the last return hands out the graph and the
  labels read so far together with \<open>scanner.Err()\<close>.
\<close>

definition loadModel :: "world \<Rightarrow> Graph option \<times> string list \<times> error option" where
  "loadModel w =
     (case ReadFile w graphFile of
        Inl err \<Rightarrow> (None, [], Some err)
      | Inr model \<Rightarrow>
     (case Import w model of
        Inl err \<Rightarrow> (None, [], Some err)
      | Inr graph \<Rightarrow>
     (case Open_Scanner w labelsFile of
        Inl err \<Rightarrow> (None, [], Some err)
      | Inr scanner \<Rightarrow> (Some graph, scan_lines scanner, scan_Err scanner))))"

section \<open>main\<close>

text \<open>
  What a run leaves behind: the lines printed on the standard output, and the way the
  process ends.  \<open>log.Fatalf\<close> writes its message to the log and exits with status 1.
  A label line shows the label and its probability as a percentage; the line is kept as
  the \<open>Label\<close> it prints.
\<close>

datatype printed = PrintedUrl string | PrintedLabel Label

datatype exit = Returned | Fatal string | Panicked panic

text \<open>
  \<open>output[0].Value().([][]float32)[0]\<close>, the probabilities handed to the ranker.
\<close>

definition first_row :: "Tensor list \<Rightarrow> panic + float32 list" where
  "first_row output =
     (case go_index output 0 of
        Inl p \<Rightarrow> Inl p
      | Inr t \<Rightarrow>
          (case Value_float32_2 t of
             Inl p \<Rightarrow> Inl p
           | Inr rows \<Rightarrow> go_index rows 0))"

definition main :: "(Labels \<Rightarrow> Labels) \<Rightarrow> world \<Rightarrow> printed list \<times> exit" where
  "main srt w =
     (if length (Args w) < 2 then ([], Fatal ''usage: imgrecognition <image_url>'')
      else let out = [PrintedUrl (Args w ! 1)] in
      case http_Get w (Args w ! 1) of
        Inl e \<Rightarrow> (out, Fatal (''unable to get image from url: '' @ e))
      | Inr response_Body \<Rightarrow>
     (case loadModel w of
        (_, _, Some err) \<Rightarrow> (out, Fatal (''unable to load model: '' @ err))
      | (modelGraph_ptr, labels, None) \<Rightarrow>
     (case normalizeImage w response_Body of
        Inl p \<Rightarrow> (out, Panicked p)
      | Inr (Inl err) \<Rightarrow> (out, Fatal (''unable to make a tensor from image: '' @ err))
      | Inr (Inr tensor) \<Rightarrow>
     (case modelGraph_ptr of
        None \<Rightarrow> (out, Panicked NilDereference)
      | Some modelGraph \<Rightarrow>
     (case NewSession w modelGraph of
        Some err \<Rightarrow> (out, Fatal (''could not init session: '' @ err))
      | None \<Rightarrow>
     (case Run w modelGraph
             [(Operation_Output (Graph_Operation modelGraph ''input'') 0, tensor)]
             [Operation_Output (Graph_Operation modelGraph ''output'') 0] of
        Inl err \<Rightarrow> (out, Fatal (''could not run inference: '' @ err))
      | Inr output \<Rightarrow>
     (case first_row output of
        Inl p \<Rightarrow> (out, Panicked p)
      | Inr probabilities \<Rightarrow>
     (case getTopFiveLabels srt labels probabilities of
        Inl p \<Rightarrow> (out, Panicked p)
      | Inr res \<Rightarrow> (out @ map PrintedLabel res, Returned)))))))))"

section \<open>Auxiliary notions for the statements\<close>

text \<open>The order key of a label's probability, and the pair built by the loop body.\<close>

abbreviation pkey :: "Label \<Rightarrow> int" where
  "pkey l \<equiv> f32_key (Probability l)"

abbreviation mkLabel :: "string \<times> float32 \<Rightarrow> Label" where
  "mkLabel \<equiv> \<lambda>(l, p). \<lparr>Label = l, Probability = p\<rparr>"

text \<open>
  What holds of \<open>resultLabels\<close> all along the loop: the length is within the capacity,
  and the capacity is one of 0, 1, 2, 4 until five elements are in.
\<close>

definition slice_inv :: "slice \<Rightarrow> bool" where
  "slice_inv s \<longleftrightarrow> slice_len s \<le> cap s \<and> (cap s \<in> {0, 1, 2, 4} \<or> 5 \<le> slice_len s)"



text \<open>
  The operations from an output back to the graph's input, each the producer of the
  first input of the one before; at most \<open>n\<close> of them.
\<close>

fun upstream :: "nat \<Rightarrow> Graph \<Rightarrow> Output \<Rightarrow> Operation list" where
  "upstream 0 g out = []"
| "upstream (Suc n) g out =
     (case Op out of
        None \<Rightarrow> []
      | Some name \<Rightarrow>
          (case Graph_Operation g name of
             None \<Rightarrow> []
           | Some operation \<Rightarrow>
               operation # (case Inputs operation of [] \<Rightarrow> [] | x # _ \<Rightarrow> upstream n g x)))"

text \<open>
  The number a float32 stands for, times \<open>2 ^ 149\<close>, which is an integer for every
  finite value: the fraction with its hidden bit, shifted by the exponent.
\<close>

definition f32_scaled :: "float32 \<Rightarrow> int" where
  "f32_scaled w =
     (let e = unat (drop_bit 23 w AND 0xFF); m = int (unat (w AND 0x7FFFFF));
          a = (if e = 0 then m else (2 ^ 23 + m) * 2 ^ (e - 1))
      in if bit w 31 then - a else a)"

text \<open>The three parts of the scope that \<open>getNormalizedGraph\<close> builds.\<close>

abbreviation normalize_graph :: Graph where
  "normalize_graph \<equiv> fst normalized_scope"

abbreviation normalize_input :: Output where
  "normalize_input \<equiv> fst (snd normalized_scope)"

abbreviation normalize_output :: Output where
  "normalize_output \<equiv> snd (snd normalized_scope)"

text \<open>
  A world to run the program in: every call succeeds, the model has an \<open>input\<close> and an
  \<open>output\<close> operation, the labels file has six lines, and the classification yields one
  row of six probabilities (0.1, 0.7, 0.2, 0.7, 0.01, 0.3).
\<close>

definition example_model :: Graph where
  "example_model =
     [\<lparr>Name = ''input'', Type = ''Placeholder'', Inputs = [],
        Attrs = [(''dtype'', AttrType tensorflow_Float)]\<rparr>,
      \<lparr>Name = ''output'', Type = ''Softmax'',
        Inputs = [\<lparr>Op = Some ''input'', Index = 0\<rparr>], Attrs = []\<rparr>]"

definition example_world :: world where
  "example_world =
     \<lparr>Args = [''imgrecognition'', ''http://example.org/cat.jpg''],
      http_Get = (\<lambda>url. Inr \<lparr>body_bytes = ''JFIF'', body_err = None\<rparr>),
      ReadFile = (\<lambda>path. Inr ''graph bytes''),
      Import = (\<lambda>model. Inr example_model),
      Open_Scanner = (\<lambda>path. Inr \<lparr>scan_lines = [''a'', ''b'', ''c'', ''d'', ''e'', ''f''],
                                     scan_Err = None\<rparr>),
      NewTensor = (\<lambda>s. Inr (StringTensor s)),
      scope_Err = (\<lambda>g. None),
      Err_ports = (\<lambda>g. (\<lparr>Op = None, Index = 0\<rparr>, \<lparr>Op = None, Index = 0\<rparr>)),
      NewSession = (\<lambda>g. None),
      Run = (\<lambda>g feeds fetches.
               if g = example_model
               then Inr [FloatTensor [1, 6]
                      [0x3DCCCCCD, 0x3F333333, 0x3E4CCCCD, 0x3F333333, 0x3C23D70A, 0x3E99999A]]
               else Inr [FloatTensor [1, 1, 1, 3] [0, 0, 0]])\<rparr>"

section \<open>The insertion sort meets the contract\<close>

lemma length_Swap: "length (Swap a i j) = length a"
  by (simp add: Swap_def)

lemma mset_Swap: "i < length a \<Longrightarrow> j < length a \<Longrightarrow> mset (Swap a i j) = mset a"
  unfolding Swap_def by (simp add: mset_swap)

lemma length_insert_down: "length (insert_down a j) = length a"
  by (induction a j rule: insert_down.induct) (simp_all add: length_Swap)

lemma mset_insert_down: "j < length a \<Longrightarrow> mset (insert_down a j) = mset a"
  by (induction a j rule: insert_down.induct) (simp_all add: length_Swap mset_Swap)

lemma fold_insert_down_length:
  "length (fold (\<lambda>i d. insert_down d i) is a) = length a"
  by (induction "is" arbitrary: a) (simp_all add: length_insert_down)

lemma fold_insert_down_mset:
  "\<forall>i \<in> set is. i < length a \<Longrightarrow> mset (fold (\<lambda>i d. insert_down d i) is a) = mset a"
  by (induction "is" arbitrary: a) (simp_all add: length_insert_down mset_insert_down)

lemma mset_insertionSort: "mset (insertionSort a) = mset a"
  unfolding insertionSort_def Len_def by (rule fold_insert_down_mset) simp

lemma Swap_adjacent:
  "length xs = j \<Longrightarrow> Swap (xs @ y # x # ys) (Suc j) j = xs @ x # y # ys"
  by (simp add: Swap_def nth_append list_update_append)

lemma insert_down_insort:
  "no_NaN (xs @ x # ys) \<Longrightarrow>
   insert_down (xs @ x # ys) (length xs) = rev (insort_key pkey x (rev xs)) @ ys"
proof (induction xs arbitrary: x ys rule: rev_induct)
  case Nil
  then show ?case by simp
next
  case (snoc y xs)
  have nn: "\<not> isNaN (Probability x)" "\<not> isNaN (Probability y)"
    using snoc.prems by (simp_all add: no_NaN_def)
  have less: "Less ((xs @ [y]) @ x # ys) (Suc (length xs)) (length xs) \<longleftrightarrow> pkey y < pkey x"
    using nn by (simp add: Less_def f32_gt_def nth_append)
  show ?case
  proof (cases "pkey y < pkey x")
    case True
    have sw: "Swap ((xs @ [y]) @ x # ys) (Suc (length xs)) (length xs) = xs @ x # y # ys"
      using Swap_adjacent [of xs "length xs" y x ys] by simp
    have nn': "no_NaN (xs @ x # y # ys)"
      using snoc.prems by (auto simp: no_NaN_def)
    show ?thesis
      using True less sw snoc.IH [OF nn'] by simp
  next
    case False
    then show ?thesis using less by simp
  qed
qed

lemma fold_insort_sorted:
  "sorted (map pkey acc) \<Longrightarrow> sorted (map pkey (fold (insort_key pkey) xs acc))"
  by (induction xs arbitrary: acc) (simp_all add: sorted_insort_key)

lemma fold_insort_mset:
  "mset (fold (insort_key pkey) xs acc) = mset xs + mset acc"
  by (induction xs arbitrary: acc) simp_all

lemma no_NaN_mset: "mset a = mset b \<Longrightarrow> no_NaN a = no_NaN b"
  by (auto simp: no_NaN_def list_all_iff dest: mset_eq_setD)

lemma fold_insert_down_insort:
  "no_NaN a \<Longrightarrow> m < length a \<Longrightarrow>
   fold (\<lambda>i d. insert_down d i) [1 ..< Suc m] a =
     rev (fold (insort_key pkey) (take (Suc m) a) []) @ drop (Suc m) a"
proof (induction m)
  case 0
  then show ?case by (cases a) simp_all
next
  case (Suc m)
  let ?pre = "rev (fold (insort_key pkey) (take (Suc m) a) [])"
  have IH: "fold (\<lambda>i d. insert_down d i) [1 ..< Suc m] a = ?pre @ drop (Suc m) a"
    using Suc by simp
  have len: "length ?pre = Suc m"
    using Suc.prems(2) fold_insort_mset [of "take (Suc m) a" "[]", THEN arg_cong, of size]
    by simp
  have dr: "drop (Suc m) a = a ! Suc m # drop (Suc (Suc m)) a"
    using Suc.prems(2) by (simp add: Cons_nth_drop_Suc)
  have ms: "mset (?pre @ a ! Suc m # drop (Suc (Suc m)) a) = mset a"
    using IH dr fold_insert_down_mset [of "[1 ..< Suc m]" a] Suc.prems(2)
    by (metis atLeastLessThan_iff less_trans set_upt Suc_lessD)
  have nn: "no_NaN (?pre @ a ! Suc m # drop (Suc (Suc m)) a)"
    using no_NaN_mset [OF ms] Suc.prems(1) by simp
  have "fold (\<lambda>i d. insert_down d i) [1 ..< Suc (Suc m)] a =
        insert_down (?pre @ a ! Suc m # drop (Suc (Suc m)) a) (Suc m)"
    using IH dr by simp
  also have "\<dots> = rev (insort_key pkey (a ! Suc m) (rev ?pre)) @ drop (Suc (Suc m)) a"
    using insert_down_insort [OF nn] len by simp
  also have "insort_key pkey (a ! Suc m) (rev ?pre) =
             fold (insort_key pkey) (take (Suc (Suc m)) a) []"
    using Suc.prems(2) by (simp add: take_Suc_conv_app_nth [of "Suc m"])
  finally show ?case .
qed

lemma insertionSort_insort:
  "no_NaN a \<Longrightarrow> insertionSort a = rev (fold (insort_key pkey) a [])"
proof (cases a)
  case Nil
  then show ?thesis by (simp add: insertionSort_def Len_def)
next
  case (Cons x xs)
  assume "no_NaN a"
  then show ?thesis
    using fold_insert_down_insort [of a "length xs"] Cons
    by (simp add: insertionSort_def Len_def)
qed

lemma ordered_by_Less_iff:
  "no_NaN a \<Longrightarrow> ordered_by_Less a \<longleftrightarrow> sorted (rev (map pkey a))"
proof -
  assume nn: "no_NaN a"
  have less: "Less a j i \<longleftrightarrow> pkey (a ! i) < pkey (a ! j)" if "j < length a" "i < length a" for i j
    using nn that by (simp add: Less_def f32_gt_def no_NaN_def list_all_length)
  have "ordered_by_Less a \<longleftrightarrow> (\<forall>j < length a. \<forall>i < j. pkey (a ! j) \<le> pkey (a ! i))"
    unfolding ordered_by_Less_def Len_def using less by (auto simp: not_less)
  also have "\<dots> \<longleftrightarrow> sorted_wrt (\<lambda>x y. pkey y \<le> pkey x) a"
    by (auto simp: sorted_wrt_iff_nth_less)
  also have "\<dots> \<longleftrightarrow> sorted (rev (map pkey a))"
    by (simp add: sorted_wrt_rev sorted_wrt_map flip: rev_map)
  finally show ?thesis .
qed

lemma insertionSort_ordered: "no_NaN a \<Longrightarrow> ordered_by_Less (insertionSort a)"
proof -
  assume nn: "no_NaN a"
  have "no_NaN (insertionSort a)"
    using no_NaN_mset [OF mset_insertionSort] nn by simp
  moreover have "sorted (rev (map pkey (insertionSort a)))"
    using fold_insort_sorted [of "[]" a] by (simp add: insertionSort_insort [OF nn] rev_map)
  ultimately show ?thesis by (simp add: ordered_by_Less_iff)
qed

lemma insertionSort_contract: "sort_contract insertionSort"
  by (simp add: sort_contract_def mset_insertionSort insertionSort_ordered)

section \<open>The pairing loop and the slice\<close>

lemma slice_inv_nil: "slice_inv nil_slice"
  by (simp add: slice_inv_def nil_slice_def cap_def)

lemma growcap_gt: "c < growcap c"
proof -
  have "0 < (c + 3 * 256) div 4" by (simp add: div_greater_zero_iff)
  then show ?thesis by (simp add: growcap_def)
qed

lemma append_slice_len: "slice_len (append_slice s x) = Suc (slice_len s)"
  by (simp add: append_slice_def)

lemma append_slice_contents:
  "slice_len s \<le> cap s \<Longrightarrow> contents (append_slice s x) = contents s @ [x]"
  by (auto simp: append_slice_def contents_def cap_def take_Suc_conv_app_nth)

lemma append_slice_cap:
  "slice_len s \<le> cap s \<Longrightarrow>
   cap (append_slice s x) = (if slice_len s < cap s then cap s else growcap (cap s))"
  using growcap_gt [of "cap s"]
  by (auto simp: append_slice_def contents_def cap_def)

lemma append_slice_inv: "slice_inv s \<Longrightarrow> slice_inv (append_slice s x)"
proof -
  assume inv: "slice_inv s"
  then have le: "slice_len s \<le> cap s" by (simp add: slice_inv_def)
  show ?thesis
  proof (cases "slice_len s < cap s")
    case True
    then show ?thesis
      using inv by (auto simp: slice_inv_def append_slice_cap [OF le] append_slice_len)
  next
    case False
    then have eq: "slice_len s = cap s" using le by simp
    have "cap s \<in> {0, 1, 2, 4} \<or> 5 \<le> cap s" using inv eq by (simp add: slice_inv_def)
    then show ?thesis
      using growcap_gt [of "cap s"] eq
      by (auto simp: slice_inv_def append_slice_cap [OF le] append_slice_len growcap_def)
  qed
qed

lemma pair_loop_eq:
  "slice_inv rs \<Longrightarrow>
   \<exists>rs'. pair_loop labels i ps rs = Inr rs' \<and> slice_inv rs' \<and>
     contents rs' = contents rs @ map mkLabel (zip (drop i labels) ps)"
proof (induction ps arbitrary: i rs)
  case Nil
  then show ?case by simp
next
  case (Cons p ps)
  show ?case
  proof (cases "i \<ge> length labels")
    case True
    then show ?thesis using Cons.prems by simp
  next
    case False
    then have lt: "i < length labels" by simp
    let ?rs = "append_slice rs \<lparr>Label = labels ! i, Probability = p\<rparr>"
    have inv: "slice_inv ?rs" using Cons.prems by (rule append_slice_inv)
    have le: "slice_len rs \<le> cap rs" using Cons.prems by (simp add: slice_inv_def)
    obtain rs' where rs': "pair_loop labels (Suc i) ps ?rs = Inr rs'" "slice_inv rs'"
        "contents rs' = contents ?rs @ map mkLabel (zip (drop (Suc i) labels) ps)"
      using Cons.IH [OF inv, of "Suc i"] by blast
    have dr: "drop i labels = labels ! i # drop (Suc i) labels"
      using lt by (simp add: Cons_nth_drop_Suc)
    show ?thesis
      using lt rs' dr by (simp add: go_index_def append_slice_contents [OF le])
  qed
qed

lemma pair_loop_nil:
  "\<exists>rs. pair_loop labels 0 ps nil_slice = Inr rs \<and> slice_inv rs \<and>
     contents rs = map mkLabel (zip labels ps)"
  using pair_loop_eq [OF slice_inv_nil, of labels 0 ps]
  by (simp add: contents_def nil_slice_def)

lemma slice_inv_contents_length: "slice_inv s \<Longrightarrow> length (contents s) = slice_len s"
  by (simp add: slice_inv_def contents_def cap_def)

lemma getTopFiveLabels_eq:
  assumes len: "\<And>a. length (srt a) = length a"
  shows "getTopFiveLabels srt labels ps =
     (if 5 \<le> min (length labels) (length ps)
      then Inr (take 5 (srt (map mkLabel (zip labels ps))))
      else Inl SliceBoundsOutOfRange)"
proof -
  obtain rs where rs: "pair_loop labels 0 ps nil_slice = Inr rs" "slice_inv rs"
      "contents rs = map mkLabel (zip labels ps)"
    using pair_loop_nil by blast
  let ?n = "min (length labels) (length ps)"
  have n: "slice_len rs = ?n"
    using slice_inv_contents_length [OF rs(2)] rs(3) by simp
  let ?s = "sort_Sort srt rs"
  have sp: "sortedPairs srt labels ps = Inr ?s"
    by (simp add: sortedPairs_def rs(1))
  have le: "slice_len rs \<le> length (slice_array rs)"
    using rs(2) by (simp add: slice_inv_def cap_def)
  have cap: "cap ?s = cap rs"
    using le by (simp add: sort_Sort_def cap_def len contents_def)
  show ?thesis
  proof (cases "5 \<le> ?n")
    case True
    then have "5 \<le> cap rs" using rs(2) n unfolding slice_inv_def by linarith
    moreover have "take 5 (slice_array ?s) = take 5 (srt (contents rs))"
      using True n le by (simp add: sort_Sort_def len contents_def)
    ultimately show ?thesis
      using True cap rs(3)
      by (simp add: getTopFiveLabels_def sp slice_upto_def contents_def)
  next
    case False
    then have "cap rs < 5" using rs(2) n by (auto simp: slice_inv_def)
    then show ?thesis
      using False cap by (simp add: getTopFiveLabels_def sp slice_upto_def)
  qed
qed

lemma pair_loop_take:
  "pair_loop labels i ps rs = pair_loop labels i (take (length labels - i) ps) rs"
proof (induction ps arbitrary: i rs)
  case Nil
  then show ?case by simp
next
  case (Cons p ps)
  show ?case
  proof (cases "i \<ge> length labels")
    case True
    then show ?thesis by simp
  next
    case False
    then obtain k where k: "length labels - i = Suc k" "length labels - Suc i = k"
      by (cases "length labels - i") auto
    show ?thesis
      using False k Cons.IH [of "Suc i"] by (simp add: go_index_def)
  qed
qed

section \<open>Order and uniqueness\<close>

lemma Probability_pairs:
  "map Probability (map mkLabel (zip labels ps)) = take (length labels) ps"
proof -
  have "map Probability (map mkLabel (zip labels ps)) = map snd (zip labels ps)"
    by (simp add: case_prod_beta)
  also have "\<dots> = take (min (length labels) (length ps)) ps"
    by (rule map_snd_zip_take)
  also have "\<dots> = take (length labels) ps"
    by (simp add: min_def)
  finally show ?thesis .
qed

lemma no_NaN_pairs:
  "no_NaN (map mkLabel (zip labels ps)) \<longleftrightarrow> list_all (\<lambda>p. \<not> isNaN p) (take (length labels) ps)"
proof -
  have "no_NaN a \<longleftrightarrow> list_all (\<lambda>p. \<not> isNaN p) (map Probability a)" for a
    by (simp add: no_NaN_def list_all_iff)
  then show ?thesis by (simp only: Probability_pairs)
qed



lemma ordered_unique:
  assumes nn: "no_NaN a" and d: "distinct (map pkey a)"
    and b: "mset b = mset a" "ordered_by_Less b"
    and c: "mset c = mset a" "ordered_by_Less c"
  shows "b = c"
proof -
  have nb: "no_NaN b" and nc: "no_NaN c"
    using no_NaN_mset [OF b(1)] no_NaN_mset [OF c(1)] nn by simp_all
  have sb: "sorted (rev (map pkey b))" and sc: "sorted (rev (map pkey c))"
    using b(2) c(2) nb nc by (simp_all add: ordered_by_Less_iff)
  have mb: "mset (map pkey b) = mset (map pkey a)" and mc: "mset (map pkey c) = mset (map pkey a)"
    using b(1) c(1) by (metis mset_map)+
  have db: "distinct (map pkey b)" and dc: "distinct (map pkey c)"
    using mset_eq_imp_distinct_iff [OF mb] mset_eq_imp_distinct_iff [OF mc] d by simp_all
  have "set (map pkey b) = set (map pkey c)"
    using mset_eq_setD [OF mb] mset_eq_setD [OF mc] by simp
  then have "rev (map pkey b) = rev (map pkey c)"
    using sb sc db dc by (intro sorted_distinct_set_unique) simp_all
  then have eq: "map pkey b = map pkey c" by simp
  have "inj_on pkey (set a)" using d by (simp add: distinct_map)
  moreover have "set b = set a" "set c = set a"
    using mset_eq_setD [OF b(1)] mset_eq_setD [OF c(1)] by simp_all
  ultimately have "inj_on pkey (set b \<union> set c)" by simp
  then show ?thesis using eq by (simp add: inj_on_map_eq_map)
qed

lemma contract_length: "sort_contract srt \<Longrightarrow> length (srt a) = length a"
  unfolding sort_contract_def by (metis size_mset)

lemma contract_unique:
  assumes "sort_contract srt1" "sort_contract srt2" "no_NaN a" "distinct (map pkey a)"
  shows "srt1 a = srt2 a"
  using assms unfolding sort_contract_def by (intro ordered_unique [of a]) simp_all



lemmas f32_eval = f32_gt_def f32_ge_def isNaN_def f32_key_def f32_mag_def

lemmas ranker_eval = getTopFiveLabels_def sortedPairs_def go_index_def append_slice_def
  nil_slice_def cap_def contents_def growcap_def sort_Sort_def slice_upto_def zero_Label_def

lemmas sort_eval = insertionSort_def Len_def Less_def Swap_def

lemma sortedPairs_eq:
  assumes len: "\<And>a. length (srt a) = length a"
  shows "\<exists>s. sortedPairs srt labels ps = Inr s \<and> contents s = srt (map mkLabel (zip labels ps))"
proof -
  obtain rs where rs: "pair_loop labels 0 ps nil_slice = Inr rs" "slice_inv rs"
      "contents rs = map mkLabel (zip labels ps)"
    using pair_loop_nil by blast
  have "length (contents rs) = slice_len rs"
    using rs(2) by (rule slice_inv_contents_length)
  then have "contents (sort_Sort srt rs) = srt (contents rs)"
    by (simp add: sort_Sort_def contents_def [of "_\<lparr>slice_array := _\<rparr>"] len)
  then show ?thesis by (simp add: sortedPairs_def rs(1) rs(3))
qed

lemma pairs_nth:
  "i < min (length labels) (length ps) \<Longrightarrow>
   map mkLabel (zip labels ps) ! i = \<lparr>Label = labels ! i, Probability = ps ! i\<rparr>"
  by simp





text \<open>
  The ranker on six labels, two of them with the same probability 0.7 (the probabilities
  are 0.1, 0.7, 0.2, 0.7, 0.01 and 0.3).
\<close>

lemma ranker_six_labels: "getTopFiveLabels insertionSort [''a'', ''b'', ''c'', ''d'', ''e'', ''f'']
       [0x3DCCCCCD, 0x3F333333, 0x3E4CCCCD, 0x3F333333, 0x3C23D70A, 0x3E99999A] =
     Inr [\<lparr>Label = ''b'', Probability = 0x3F333333\<rparr>,
          \<lparr>Label = ''d'', Probability = 0x3F333333\<rparr>,
          \<lparr>Label = ''f'', Probability = 0x3E99999A\<rparr>,
          \<lparr>Label = ''c'', Probability = 0x3E4CCCCD\<rparr>,
          \<lparr>Label = ''a'', Probability = 0x3DCCCCCD\<rparr>]"
    by (simp add: ranker_eval sort_eval f32_eval)

section \<open>The pipeline\<close>

lemmas op_defs = op_Placeholder_def op_DecodeJpeg_def op_DecodeJpegChannels_def op_Cast_def
  op_ExpandDims_def op_ResizeBilinear_def op_Sub_def op_Const_def AddOperation_def
  opName_def Operation_Output_def

lemma normalized_scope_eq:
  "normalized_scope =
    ([\<lparr>Name = ''Placeholder'', Type = ''Placeholder'', Inputs = [],
        Attrs = [(''dtype'', AttrType tensorflow_String)]\<rparr>,
      \<lparr>Name = ''DecodeJpeg'', Type = ''DecodeJpeg'',
        Inputs = [\<lparr>Op = Some ''Placeholder'', Index = 0\<rparr>],
        Attrs = [(''channels'', AttrInt 3)]\<rparr>,
      \<lparr>Name = ''Cast'', Type = ''Cast'',
        Inputs = [\<lparr>Op = Some ''DecodeJpeg'', Index = 0\<rparr>],
        Attrs = [(''DstT'', AttrType tensorflow_Float)]\<rparr>,
      \<lparr>Name = ''make_batch/Const'', Type = ''Const'', Inputs = [],
        Attrs = [(''dtype'', AttrType tensorflow_Int32), (''value'', AttrTensor (Int32Tensor [] [0]))]\<rparr>,
      \<lparr>Name = ''ExpandDims'', Type = ''ExpandDims'',
        Inputs = [\<lparr>Op = Some ''Cast'', Index = 0\<rparr>, \<lparr>Op = Some ''make_batch/Const'', Index = 0\<rparr>],
        Attrs = []\<rparr>,
      \<lparr>Name = ''size/Const'', Type = ''Const'', Inputs = [],
        Attrs = [(''dtype'', AttrType tensorflow_Int32),
                 (''value'', AttrTensor (Int32Tensor [2] [224, 224]))]\<rparr>,
      \<lparr>Name = ''ResizeBilinear'', Type = ''ResizeBilinear'',
        Inputs = [\<lparr>Op = Some ''ExpandDims'', Index = 0\<rparr>, \<lparr>Op = Some ''size/Const'', Index = 0\<rparr>],
        Attrs = []\<rparr>,
      \<lparr>Name = ''mean/Const'', Type = ''Const'', Inputs = [],
        Attrs = [(''dtype'', AttrType tensorflow_Float),
                 (''value'', AttrTensor (FloatTensor [] [0x42EA0000]))]\<rparr>,
      \<lparr>Name = ''Sub'', Type = ''Sub'',
        Inputs = [\<lparr>Op = Some ''ResizeBilinear'', Index = 0\<rparr>, \<lparr>Op = Some ''mean/Const'', Index = 0\<rparr>],
        Attrs = []\<rparr>],
     \<lparr>Op = Some ''Placeholder'', Index = 0\<rparr>,
     \<lparr>Op = Some ''Sub'', Index = 0\<rparr>)"
  by (simp add: normalized_scope_def op_defs)

lemma mean_117: "f32_scaled 0x42EA0000 = 117 * 2 ^ 149"
  by (simp add: f32_scaled_def)


lemma getNormalizedGraph_eq:
  "getNormalizedGraph w =
     (case scope_Err w normalize_graph of
        Some err \<Rightarrow>
          (None, fst (Err_ports w normalize_graph), snd (Err_ports w normalize_graph), Some err)
      | None \<Rightarrow> (Some normalize_graph, normalize_input, normalize_output, None))"
  by (simp add: getNormalizedGraph_def case_prod_beta)

lemma normalizeImage_eq:
  "normalizeImage w b =
     (case NewTensor w (body_bytes b) of
        Inl err \<Rightarrow> Inr (Inl err)
      | Inr tensor \<Rightarrow>
     (case scope_Err w normalize_graph of
        Some err \<Rightarrow> Inr (Inl err)
      | None \<Rightarrow>
     (case NewSession w normalize_graph of
        Some err \<Rightarrow> Inr (Inl err)
      | None \<Rightarrow>
     (case Run w normalize_graph [(normalize_input, tensor)] [normalize_output] of
        Inl err \<Rightarrow> Inr (Inl err)
      | Inr normalized \<Rightarrow>
     (case go_index normalized 0 of
        Inl p \<Rightarrow> Inl p
      | Inr t \<Rightarrow> Inr (Inr t))))))"
  by (auto simp: normalizeImage_def io_Copy_def getNormalizedGraph_eq split: sum.splits option.splits)

lemma normalizeImage_stage_errors:
  "(NewTensor w (body_bytes b) = Inl e1 \<longrightarrow> normalizeImage w b = Inr (Inl e1)) \<and>
   (NewTensor w (body_bytes b) = Inr t \<longrightarrow>
      (scope_Err w normalize_graph = Some e2 \<longrightarrow> normalizeImage w b = Inr (Inl e2)) \<and>
      (scope_Err w normalize_graph = None \<longrightarrow>
         (NewSession w normalize_graph = Some e3 \<longrightarrow> normalizeImage w b = Inr (Inl e3)) \<and>
         (NewSession w normalize_graph = None \<longrightarrow>
            Run w normalize_graph [(normalize_input, t)] [normalize_output] = Inl e4 \<longrightarrow>
            normalizeImage w b = Inr (Inl e4))))"
  by (simp add: normalizeImage_eq)

lemma loadModel_stage_errors:
  "(ReadFile w graphFile = Inl e1 \<longrightarrow> loadModel w = (None, [], Some e1)) \<and>
   (ReadFile w graphFile = Inr model \<longrightarrow>
      (Import w model = Inl e2 \<longrightarrow> loadModel w = (None, [], Some e2)) \<and>
      (Import w model = Inr graph \<longrightarrow>
         (Open_Scanner w labelsFile = Inl e3 \<longrightarrow> loadModel w = (None, [], Some e3)) \<and>
         (Open_Scanner w labelsFile = Inr sc \<longrightarrow>
            loadModel w = (Some graph, scan_lines sc, scan_Err sc))))"
  by (simp add: loadModel_def)

lemma main_stage_errors:
  assumes args: "2 \<le> length (Args w)"
  shows
  "(http_Get w (Args w ! 1) = Inl e1 \<longrightarrow>
      main srt w = ([PrintedUrl (Args w ! 1)], Fatal (''unable to get image from url: '' @ e1))) \<and>
   (http_Get w (Args w ! 1) = Inr b \<longrightarrow>
      (loadModel w = (g, ls, Some e2) \<longrightarrow>
         main srt w = ([PrintedUrl (Args w ! 1)], Fatal (''unable to load model: '' @ e2))) \<and>
      (loadModel w = (Some mg, ls, None) \<longrightarrow>
         (normalizeImage w b = Inr (Inl e3) \<longrightarrow>
            main srt w =
              ([PrintedUrl (Args w ! 1)], Fatal (''unable to make a tensor from image: '' @ e3))) \<and>
         (normalizeImage w b = Inr (Inr t) \<longrightarrow>
            (NewSession w mg = Some e4 \<longrightarrow>
               main srt w = ([PrintedUrl (Args w ! 1)], Fatal (''could not init session: '' @ e4))) \<and>
            (NewSession w mg = None \<longrightarrow>
               Run w mg [(Operation_Output (Graph_Operation mg ''input'') 0, t)]
                        [Operation_Output (Graph_Operation mg ''output'') 0] = Inl e5 \<longrightarrow>
               main srt w = ([PrintedUrl (Args w ! 1)], Fatal (''could not run inference: '' @ e5))))))"
  using args by (simp add: main_def Let_def)

lemma main_labels_only_when_Returned:
  "PrintedLabel l \<in> set (fst (main srt w)) \<Longrightarrow> snd (main srt w) = Returned"
  by (auto simp: main_def Let_def split: if_splits sum.splits option.splits prod.splits)

lemma example_model_neq: "normalize_graph \<noteq> example_model"
  by (simp add: normalized_scope_eq example_model_def)

lemmas pipeline_eval = main_def Let_def loadModel_def normalizeImage_eq first_row_def
  go_index_def Graph_Operation_def Operation_Output_def example_world_def example_model_neq

lemma example_run:
  "main insertionSort example_world =
     ([PrintedUrl ''http://example.org/cat.jpg'',
       PrintedLabel \<lparr>Label = ''b'', Probability = 0x3F333333\<rparr>,
       PrintedLabel \<lparr>Label = ''d'', Probability = 0x3F333333\<rparr>,
       PrintedLabel \<lparr>Label = ''f'', Probability = 0x3E99999A\<rparr>,
       PrintedLabel \<lparr>Label = ''c'', Probability = 0x3E4CCCCD\<rparr>,
       PrintedLabel \<lparr>Label = ''a'', Probability = 0x3DCCCCCD\<rparr>], Returned)"
  by (simp add: pipeline_eval ranker_six_labels)

section \<open>The claims\<close>

subsection \<open>C1: the result is in descending order\<close>

text \<open>
  As stated, for every list of probabilities, the claim fails on a NaN: \<open>Less\<close> is false
  on every pair that holds one, so the sort leaves it where it stands.  With the
  probabilities 0.1, NaN, 0.7, 0.2, 0.3 the result starts with 0.1 and the NaN, and
  \<open>0.1 >= NaN\<close> is false.
\<close>

theorem C1_counterexample:
  "getTopFiveLabels insertionSort [''a'', ''b'', ''c'', ''d'', ''e'']
     [0x3DCCCCCD, 0x7FC00000, 0x3F333333, 0x3E4CCCCD, 0x3E99999A] =
   Inr [\<lparr>Label = ''a'', Probability = 0x3DCCCCCD\<rparr>,
        \<lparr>Label = ''b'', Probability = 0x7FC00000\<rparr>,
        \<lparr>Label = ''c'', Probability = 0x3F333333\<rparr>,
        \<lparr>Label = ''e'', Probability = 0x3E99999A\<rparr>,
        \<lparr>Label = ''d'', Probability = 0x3E4CCCCD\<rparr>]
   \<and> \<not> f32_ge 0x3DCCCCCD 0x7FC00000"
  by (simp add: ranker_eval sort_eval f32_eval)

text \<open>
  Claim C1, amended: when no probability that gets paired with a label is a NaN and the
  ranker returns a result \<open>R\<close>, then \<open>R[i].Probability >= R[i+1].Probability\<close> at every
  index \<open>i\<close> with \<open>i + 1 < len(R)\<close>; equal probabilities may stand in either order.
  This holds whatever procedure \<open>sort.Sort\<close> runs, as long as it keeps its contract.
\<close>

theorem C1_sorted_descending:
  assumes srt: "sort_contract srt"
    and nn: "list_all (\<lambda>p. \<not> isNaN p) (take (length labels) probabilities)"
    and R: "getTopFiveLabels srt labels probabilities = Inr R"
    and i: "Suc i < length R"
  shows "f32_ge (Probability (R ! i)) (Probability (R ! Suc i))"
proof -
  let ?a = "map mkLabel (zip labels probabilities)"
  have Req: "R = take 5 (srt ?a)"
    using R getTopFiveLabels_eq [of srt labels probabilities] contract_length [OF srt]
    by (simp split: if_splits)
  have nna: "no_NaN ?a" using nn by (simp only: no_NaN_pairs)
  have ord: "ordered_by_Less (srt ?a)" and ms: "mset (srt ?a) = mset ?a"
    using srt nna by (simp_all add: sort_contract_def)
  have nns: "no_NaN (srt ?a)" using no_NaN_mset [OF ms] nna by simp
  have lt: "Suc i < length (srt ?a)" "i < 5" "Suc i < 5" using i Req by simp_all
  have "\<not> Less (srt ?a) (Suc i) i"
    using ord lt(1) by (simp add: ordered_by_Less_def Len_def)
  moreover have "\<not> isNaN (Probability (srt ?a ! i))" "\<not> isNaN (Probability (srt ?a ! Suc i))"
    using nns lt(1) by (simp_all add: no_NaN_def list_all_length)
  ultimately have "f32_ge (Probability (srt ?a ! i)) (Probability (srt ?a ! Suc i))"
    by (simp add: Less_def f32_gt_def f32_ge_def not_less)
  then show ?thesis using Req lt by simp
qed

theorem C1_witness:
  "sort_contract insertionSort \<and>
   getTopFiveLabels insertionSort [''a'', ''b'', ''c'', ''d'', ''e'', ''f'']
       [0x3DCCCCCD, 0x3F333333, 0x3E4CCCCD, 0x3F333333, 0x3C23D70A, 0x3E99999A] =
     Inr [\<lparr>Label = ''b'', Probability = 0x3F333333\<rparr>,
          \<lparr>Label = ''d'', Probability = 0x3F333333\<rparr>,
          \<lparr>Label = ''f'', Probability = 0x3E99999A\<rparr>,
          \<lparr>Label = ''c'', Probability = 0x3E4CCCCD\<rparr>,
          \<lparr>Label = ''a'', Probability = 0x3DCCCCCD\<rparr>] \<and>
   f32_ge 0x3F333333 0x3E99999A"
proof -
  have nn: "list_all (\<lambda>p. \<not> isNaN p) (take (length [''a'', ''b'', ''c'', ''d'', ''e'', ''f''])
       [0x3DCCCCCD, 0x3F333333, 0x3E4CCCCD, 0x3F333333, 0x3C23D70A, 0x3E99999A :: float32])"
    by (simp add: isNaN_def f32_mag_def)
  show ?thesis
    using C1_sorted_descending [OF insertionSort_contract nn ranker_six_labels, of 1]
      insertionSort_contract ranker_six_labels by simp
qed

subsection \<open>C2: the pairing is positional\<close>

text \<open>
  Claim C2: for all lists of labels and of probabilities the loop ends without a panic,
  with exactly \<open>min(len(labels), len(probabilities))\<close> pairs, and the pair at index \<open>i\<close>
  is \<open>labels[i]\<close> with \<open>probabilities[i]\<close>.  The probabilities at the indices from
  \<open>len(labels)\<close> on are in no pair, and the ranker's outcome is the one it has without
  them.
\<close>

theorem C2_positional_pairing:
  "(\<exists>rs. pair_loop labels 0 probabilities nil_slice = Inr rs \<and>
     length (contents rs) = min (length labels) (length probabilities) \<and>
     (\<forall>i < min (length labels) (length probabilities).
        contents rs ! i = \<lparr>Label = labels ! i, Probability = probabilities ! i\<rparr>)) \<and>
   getTopFiveLabels srt labels probabilities =
     getTopFiveLabels srt labels (take (length labels) probabilities)"
proof -
  obtain rs where rs: "pair_loop labels 0 probabilities nil_slice = Inr rs"
      "contents rs = map mkLabel (zip labels probabilities)"
    using pair_loop_nil by blast
  have "pair_loop labels 0 probabilities nil_slice =
        pair_loop labels 0 (take (length labels) probabilities) nil_slice"
    using pair_loop_take [of labels 0 probabilities nil_slice] by simp
  then have "getTopFiveLabels srt labels probabilities =
     getTopFiveLabels srt labels (take (length labels) probabilities)"
    by (simp add: getTopFiveLabels_def sortedPairs_def)
  then show ?thesis using rs by simp
qed

theorem C2_witness:
  "\<exists>rs. pair_loop [''cat'', ''dog''] 0 [0x3DCCCCCD, 0x3F333333, 0x3E4CCCCD, 0x3E99999A, 0x3C23D70A] nil_slice = Inr rs \<and>
     length (contents rs) = 2 \<and>
     contents rs ! 0 = \<lparr>Label = ''cat'', Probability = 0x3DCCCCCD\<rparr> \<and>
     contents rs ! 1 = \<lparr>Label = ''dog'', Probability = 0x3F333333\<rparr>"
proof -
  let ?labels = "[''cat'', ''dog'']"
  let ?ps = "[0x3DCCCCCD, 0x3F333333, 0x3E4CCCCD, 0x3E99999A, 0x3C23D70A] :: float32 list"
  obtain rs where rs: "pair_loop ?labels 0 ?ps nil_slice = Inr rs"
      "length (contents rs) = min (length ?labels) (length ?ps)"
      "\<forall>i < min (length ?labels) (length ?ps).
         contents rs ! i = \<lparr>Label = ?labels ! i, Probability = ?ps ! i\<rparr>"
    using C2_positional_pairing [of ?labels ?ps] by blast
  have "contents rs ! 0 = \<lparr>Label = ?labels ! 0, Probability = ?ps ! 0\<rparr>"
    using rs(3) by simp
  moreover have "contents rs ! 1 = \<lparr>Label = ?labels ! 1, Probability = ?ps ! 1\<rparr>"
    using rs(3) by simp
  ultimately show ?thesis using rs(1,2) by simp
qed

subsection \<open>C3: five results when five pairs exist\<close>

text \<open>
  Claim C3: when \<open>len(probabilities) >= 5\<close> and \<open>len(labels) >= len(probabilities)\<close>,
  the ranker returns a result, and its length is exactly 5.
\<close>

theorem C3_exactly_five:
  assumes srt: "sort_contract srt"
    and five: "5 \<le> length probabilities"
    and le: "length probabilities \<le> length labels"
  shows "\<exists>R. getTopFiveLabels srt labels probabilities = Inr R \<and> length R = 5"
proof -
  have "5 \<le> min (length labels) (length probabilities)" using five le by simp
  then show ?thesis
    using getTopFiveLabels_eq [of srt labels probabilities] contract_length [OF srt]
    by simp
qed

theorem C3_witness:
  "sort_contract insertionSort \<and>
   (\<exists>R. getTopFiveLabels insertionSort [''a'', ''b'', ''c'', ''d'', ''e'', ''f'']
       [0x3DCCCCCD, 0x3F333333, 0x3E4CCCCD, 0x3F333333, 0x3C23D70A] = Inr R \<and> length R = 5)"
  using C3_exactly_five [OF insertionSort_contract,
      of "[0x3DCCCCCD, 0x3F333333, 0x3E4CCCCD, 0x3F333333, 0x3C23D70A]"
         "[''a'', ''b'', ''c'', ''d'', ''e'', ''f'']"]
    insertionSort_contract
  by simp

subsection \<open>C4: the bounds of the last slice expression\<close>

text \<open>
  Claim C4: \<open>resultLabels[:5]\<close> is within bounds exactly when at least five pairs
  exist, that is when \<open>min(len(labels), len(probabilities)) >= 5\<close>; with fewer pairs the
  capacity \<open>append\<close> has given the slice is below 5 too, nothing guards the expression,
  and the ranker ends in the slice-bounds panic: it neither returns a shorter list nor
  reports an error value.
\<close>

theorem C4_slice_bounds:
  assumes srt: "sort_contract srt"
  shows "((\<exists>R. getTopFiveLabels srt labels probabilities = Inr R) \<longleftrightarrow>
            5 \<le> min (length labels) (length probabilities)) \<and>
         (min (length labels) (length probabilities) < 5 \<longrightarrow>
            getTopFiveLabels srt labels probabilities = Inl SliceBoundsOutOfRange)"
proof (cases "5 \<le> min (length labels) (length probabilities)")
  case True
  then have "\<exists>R. getTopFiveLabels srt labels probabilities = Inr R"
    using getTopFiveLabels_eq [of srt labels probabilities] contract_length [OF srt]
    by simp
  moreover have "\<not> min (length labels) (length probabilities) < 5"
    using True by linarith
  ultimately show ?thesis using True by blast
next
  case False
  then have "getTopFiveLabels srt labels probabilities = Inl SliceBoundsOutOfRange"
    using getTopFiveLabels_eq [of srt labels probabilities] contract_length [OF srt]
    by simp
  then show ?thesis using False by simp
qed

theorem C4_witness:
  "sort_contract insertionSort \<and>
   getTopFiveLabels insertionSort [''a'', ''b'', ''c'', ''d'']
       [0x3DCCCCCD, 0x3F333333, 0x3E4CCCCD, 0x3F333333, 0x3C23D70A] = Inl SliceBoundsOutOfRange \<and>
   (\<exists>R. getTopFiveLabels insertionSort [''a'', ''b'', ''c'', ''d'', ''e'']
       [0x3DCCCCCD, 0x3F333333, 0x3E4CCCCD, 0x3F333333, 0x3C23D70A] = Inr R)"
  using C4_slice_bounds [OF insertionSort_contract,
      of "[''a'', ''b'', ''c'', ''d'']" "[0x3DCCCCCD, 0x3F333333, 0x3E4CCCCD, 0x3F333333, 0x3C23D70A]"]
    C4_slice_bounds [OF insertionSort_contract,
      of "[''a'', ''b'', ''c'', ''d'', ''e'']" "[0x3DCCCCCD, 0x3F333333, 0x3E4CCCCD, 0x3F333333, 0x3C23D70A]"]
    insertionSort_contract
  by simp

subsection \<open>C6: the three-label example\<close>

text \<open>
  As stated the claim asks for the first two entries with \<open>k = 2\<close>.  The ranker has no
  such parameter: it always takes the first five, and with the three labels of the
  example it ends in the slice-bounds panic.
\<close>

theorem C6_counterexample:
  "getTopFiveLabels insertionSort [''cat'', ''dog'', ''fish'']
     [0x3DCCCCCD, 0x3F333333, 0x3E4CCCCD] = Inl SliceBoundsOutOfRange"
  by (simp add: ranker_eval sort_eval f32_eval)

text \<open>
  Claim C6, amended: on \<open>labels = ["cat","dog","fish"]\<close> and
  \<open>probabilities = [0.1, 0.7, 0.2]\<close> the sorted pairs the ranker builds are
  \<open>{"dog",0.7}\<close>, \<open>{"fish",0.2}\<close>, \<open>{"cat",0.1}\<close> in that order, so that the first two
  are those of the claim; the ranker itself, which always slices five entries, ends in
  the slice-bounds panic on this input.
\<close>

theorem C6_three_labels:
  assumes srt: "sort_contract srt"
  shows "(\<exists>s. sortedPairs srt [''cat'', ''dog'', ''fish''] [0x3DCCCCCD, 0x3F333333, 0x3E4CCCCD] = Inr s \<and>
            contents s = [\<lparr>Label = ''dog'', Probability = 0x3F333333\<rparr>,
                          \<lparr>Label = ''fish'', Probability = 0x3E4CCCCD\<rparr>,
                          \<lparr>Label = ''cat'', Probability = 0x3DCCCCCD\<rparr>]) \<and>
         getTopFiveLabels srt [''cat'', ''dog'', ''fish''] [0x3DCCCCCD, 0x3F333333, 0x3E4CCCCD] =
           Inl SliceBoundsOutOfRange"
proof -
  let ?labels = "[''cat'', ''dog'', ''fish'']"
  let ?ps = "[0x3DCCCCCD, 0x3F333333, 0x3E4CCCCD] :: float32 list"
  let ?a = "map mkLabel (zip ?labels ?ps)"
  have nn: "no_NaN ?a" by (simp add: no_NaN_def isNaN_def f32_mag_def)
  have d: "distinct (map pkey ?a)" by (simp add: f32_key_def f32_mag_def)
  have "srt ?a = insertionSort ?a"
    using srt insertionSort_contract nn d by (rule contract_unique)
  also have "\<dots> = [\<lparr>Label = ''dog'', Probability = 0x3F333333\<rparr>,
                     \<lparr>Label = ''fish'', Probability = 0x3E4CCCCD\<rparr>,
                     \<lparr>Label = ''cat'', Probability = 0x3DCCCCCD\<rparr>]"
    by (simp add: sort_eval f32_eval)
  finally have sorted: "srt ?a = [\<lparr>Label = ''dog'', Probability = 0x3F333333\<rparr>,
                     \<lparr>Label = ''fish'', Probability = 0x3E4CCCCD\<rparr>,
                     \<lparr>Label = ''cat'', Probability = 0x3DCCCCCD\<rparr>]" .
  obtain s where s: "sortedPairs srt ?labels ?ps = Inr s" "contents s = srt ?a"
    using sortedPairs_eq [of srt ?labels ?ps] contract_length [OF srt] by blast
  have "getTopFiveLabels srt ?labels ?ps = Inl SliceBoundsOutOfRange"
    using getTopFiveLabels_eq [of srt ?labels ?ps] contract_length [OF srt] by simp
  then show ?thesis using s sorted by simp
qed

theorem C6_witness:
  "sort_contract insertionSort \<and>
   (\<exists>s. sortedPairs insertionSort [''cat'', ''dog'', ''fish''] [0x3DCCCCCD, 0x3F333333, 0x3E4CCCCD] = Inr s \<and>
            contents s = [\<lparr>Label = ''dog'', Probability = 0x3F333333\<rparr>,
                          \<lparr>Label = ''fish'', Probability = 0x3E4CCCCD\<rparr>,
                          \<lparr>Label = ''cat'', Probability = 0x3DCCCCCD\<rparr>])"
  using C6_three_labels [OF insertionSort_contract] insertionSort_contract by simp

subsection \<open>C7: determinism\<close>




text \<open>
  With a tie the order of the output does depend on the procedure: sorting the pairs
  as they stand and sorting them from the reversed list both keep the contract and
  return the two labels of probability 0.7 in different orders.
\<close>

lemma tied_order_depends_on_sort:
  "getTopFiveLabels insertionSort [''a'', ''b'', ''c'', ''d'', ''e'']
      [0x3F333333, 0x3F333333, 0x3E4CCCCD, 0x3DCCCCCD, 0x3C23D70A] \<noteq>
   getTopFiveLabels (\<lambda>a. insertionSort (rev a)) [''a'', ''b'', ''c'', ''d'', ''e'']
      [0x3F333333, 0x3F333333, 0x3E4CCCCD, 0x3DCCCCCD, 0x3C23D70A]"
  by (simp add: ranker_eval sort_eval f32_eval)

subsection \<open>C9: ranking keeps the pairs\<close>

text \<open>
  Claim C9: every entry of the ranker's result is the pair of \<open>labels[i]\<close> and
  \<open>probabilities[i]\<close> for one index \<open>i\<close> below \<open>min(len(labels), len(probabilities))\<close>:
  no label and no probability is made up, and none is moved to another pair.
\<close>

theorem C9_pairing_preserved:
  assumes srt: "sort_contract srt"
    and R: "getTopFiveLabels srt labels probabilities = Inr R"
    and x: "x \<in> set R"
  shows "\<exists>i < min (length labels) (length probabilities).
           x = \<lparr>Label = labels ! i, Probability = probabilities ! i\<rparr>"
proof -
  let ?a = "map mkLabel (zip labels probabilities)"
  have "R = take 5 (srt ?a)"
    using R getTopFiveLabels_eq [of srt labels probabilities] contract_length [OF srt]
    by (simp split: if_splits)
  then have "x \<in> set (srt ?a)" using x by (auto dest: in_set_takeD)
  moreover have "mset (srt ?a) = mset ?a" using srt by (simp add: sort_contract_def)
  ultimately have "x \<in> set ?a" by (metis set_mset_mset)
  then obtain i where i: "i < length ?a" "x = ?a ! i" by (auto simp: in_set_conv_nth)
  then show ?thesis by (intro exI [of _ i]) simp
qed

theorem C9_witness:
  "sort_contract insertionSort \<and>
   getTopFiveLabels insertionSort [''a'', ''b'', ''c'', ''d'', ''e'', ''f'']
       [0x3DCCCCCD, 0x3F333333, 0x3E4CCCCD, 0x3F333333, 0x3C23D70A, 0x3E99999A] =
     Inr [\<lparr>Label = ''b'', Probability = 0x3F333333\<rparr>,
          \<lparr>Label = ''d'', Probability = 0x3F333333\<rparr>,
          \<lparr>Label = ''f'', Probability = 0x3E99999A\<rparr>,
          \<lparr>Label = ''c'', Probability = 0x3E4CCCCD\<rparr>,
          \<lparr>Label = ''a'', Probability = 0x3DCCCCCD\<rparr>] \<and>
   (\<exists>i < 6. \<lparr>Label = ''f'', Probability = 0x3E99999A\<rparr> =
       \<lparr>Label = [''a'', ''b'', ''c'', ''d'', ''e'', ''f''] ! i,
        Probability = [0x3DCCCCCD, 0x3F333333, 0x3E4CCCCD, 0x3F333333, 0x3C23D70A, 0x3E99999A] ! i\<rparr>)"
  using C9_pairing_preserved [OF insertionSort_contract ranker_six_labels,
      of "\<lparr>Label = ''f'', Probability = 0x3E99999A\<rparr>"]
    insertionSort_contract ranker_six_labels
  by (simp add: numeral_eq_Suc)

subsection \<open>C5: the preprocessing graph\<close>

text \<open>
  As stated the claim calls the placeholder scalar.  The call is
  \<open>op.Placeholder(s, tensorflow.String)\<close>, with no shape option: the operation behind the
  input port carries its \<open>dtype\<close> and nothing else, so that the graph declares a string
  of any shape.
\<close>

theorem C5_counterexample:
  "Op normalize_input = Some ''Placeholder'' \<and>
   map_option Attrs (Graph_Operation normalize_graph ''Placeholder'') =
     Some [(''dtype'', AttrType tensorflow_String)] \<and>
   map_of [(''dtype'', AttrType tensorflow_String)] ''shape'' = None"
  by (simp add: normalized_scope_eq Graph_Operation_def)

text \<open>
  Claim C5, amended: \<open>getNormalizedGraph\<close> builds one fixed graph.  Its input port is the
  output of a placeholder that declares the type string and no shape; from there each
  operation takes the output of the one before as its first input: \<open>DecodeJpeg\<close> with
  \<open>channels = 3\<close>, \<open>Cast\<close> to float, \<open>ExpandDims\<close> at the constant position 0,
  \<open>ResizeBilinear\<close> to the constant size 224 by 224, and \<open>Sub\<close> of the constant mean
  117.0.  When the scope has recorded no error, the graph is returned with these two
  ports, the output port being the output of \<open>Sub\<close>; when it has, no graph is returned
  and the error is.
\<close>

theorem C5_preprocessing_chain:
  "(let g = [\<lparr>Name = ''Placeholder'', Type = ''Placeholder'', Inputs = [],
        Attrs = [(''dtype'', AttrType tensorflow_String)]\<rparr>,
      \<lparr>Name = ''DecodeJpeg'', Type = ''DecodeJpeg'',
        Inputs = [\<lparr>Op = Some ''Placeholder'', Index = 0\<rparr>],
        Attrs = [(''channels'', AttrInt 3)]\<rparr>,
      \<lparr>Name = ''Cast'', Type = ''Cast'',
        Inputs = [\<lparr>Op = Some ''DecodeJpeg'', Index = 0\<rparr>],
        Attrs = [(''DstT'', AttrType tensorflow_Float)]\<rparr>,
      \<lparr>Name = ''make_batch/Const'', Type = ''Const'', Inputs = [],
        Attrs = [(''dtype'', AttrType tensorflow_Int32), (''value'', AttrTensor (Int32Tensor [] [0]))]\<rparr>,
      \<lparr>Name = ''ExpandDims'', Type = ''ExpandDims'',
        Inputs = [\<lparr>Op = Some ''Cast'', Index = 0\<rparr>, \<lparr>Op = Some ''make_batch/Const'', Index = 0\<rparr>],
        Attrs = []\<rparr>,
      \<lparr>Name = ''size/Const'', Type = ''Const'', Inputs = [],
        Attrs = [(''dtype'', AttrType tensorflow_Int32),
                 (''value'', AttrTensor (Int32Tensor [2] [224, 224]))]\<rparr>,
      \<lparr>Name = ''ResizeBilinear'', Type = ''ResizeBilinear'',
        Inputs = [\<lparr>Op = Some ''ExpandDims'', Index = 0\<rparr>, \<lparr>Op = Some ''size/Const'', Index = 0\<rparr>],
        Attrs = []\<rparr>,
      \<lparr>Name = ''mean/Const'', Type = ''Const'', Inputs = [],
        Attrs = [(''dtype'', AttrType tensorflow_Float),
                 (''value'', AttrTensor (FloatTensor [] [0x42EA0000]))]\<rparr>,
      \<lparr>Name = ''Sub'', Type = ''Sub'',
        Inputs = [\<lparr>Op = Some ''ResizeBilinear'', Index = 0\<rparr>, \<lparr>Op = Some ''mean/Const'', Index = 0\<rparr>],
        Attrs = []\<rparr>];
       input = \<lparr>Op = Some ''Placeholder'', Index = 0\<rparr>;
       output = \<lparr>Op = Some ''Sub'', Index = 0\<rparr>
    in (case scope_Err w g of
          Some err \<Rightarrow>
            fst (getNormalizedGraph w) = None \<and> snd (snd (snd (getNormalizedGraph w))) = Some err
        | None \<Rightarrow> getNormalizedGraph w = (Some g, input, output, None)) \<and>
       map_option Attrs (Graph_Operation g ''Placeholder'') =
         Some [(''dtype'', AttrType tensorflow_String)] \<and>
       map Type (upstream (length g) g output) =
         [''Sub'', ''ResizeBilinear'', ''ExpandDims'', ''Cast'', ''DecodeJpeg'', ''Placeholder''] \<and>
       Some (Name (last (upstream (length g) g output))) = Op input) \<and>
   f32_scaled 0x42EA0000 = 117 * 2 ^ 149"
  by (simp add: getNormalizedGraph_def normalized_scope_eq Graph_Operation_def f32_scaled_def
      split: option.splits)

subsection \<open>C8: every error of a stage ends the run\<close>

text \<open>
  As stated the claim fails twice.  The error of reading the response body is returned
  by \<open>io.Copy\<close> and dropped, so that a fetch that breaks off is classified like any
  other: the run prints its five labels and returns.  And the error that ends a run does
  not always tell the stage: the construction of the tensor, the build of the
  preprocessing graph, the creation of its session and its run all end \<open>main\<close> with the
  message of one step, \<open>unable to make a tensor from image\<close>, followed by the error's
  text; with the same text the four runs cannot be told apart.
\<close>

theorem C8_counterexample:
  "main insertionSort
     (example_world\<lparr>http_Get := \<lambda>url. Inr \<lparr>body_bytes = ''JF'', body_err = Some ''unexpected EOF''\<rparr>\<rparr>) =
     ([PrintedUrl ''http://example.org/cat.jpg'',
       PrintedLabel \<lparr>Label = ''b'', Probability = 0x3F333333\<rparr>,
       PrintedLabel \<lparr>Label = ''d'', Probability = 0x3F333333\<rparr>,
       PrintedLabel \<lparr>Label = ''f'', Probability = 0x3E99999A\<rparr>,
       PrintedLabel \<lparr>Label = ''c'', Probability = 0x3E4CCCCD\<rparr>,
       PrintedLabel \<lparr>Label = ''a'', Probability = 0x3DCCCCCD\<rparr>], Returned) \<and>
   main insertionSort (example_world\<lparr>NewTensor := \<lambda>s. Inl ''failed''\<rparr>) =
     ([PrintedUrl ''http://example.org/cat.jpg''],
      Fatal ''unable to make a tensor from image: failed'') \<and>
   main insertionSort (example_world\<lparr>scope_Err := \<lambda>g. Some ''failed''\<rparr>) =
     ([PrintedUrl ''http://example.org/cat.jpg''],
      Fatal ''unable to make a tensor from image: failed'') \<and>
   main insertionSort
     (example_world\<lparr>NewSession := \<lambda>g. if g = example_model then None else Some ''failed''\<rparr>) =
     ([PrintedUrl ''http://example.org/cat.jpg''],
      Fatal ''unable to make a tensor from image: failed'') \<and>
   main insertionSort
     (example_world\<lparr>Run := \<lambda>g feeds fetches.
        if g = example_model then Run example_world g feeds fetches else Inl ''failed''\<rparr>) =
     ([PrintedUrl ''http://example.org/cat.jpg''],
      Fatal ''unable to make a tensor from image: failed'')"
  by (simp add: pipeline_eval ranker_six_labels)

text \<open>
  Claim C8, amended: every error that the program checks ends the run.  When
  \<open>http.Get\<close>, \<open>loadModel\<close> (on reading or importing the graph, on opening or scanning
  the labels), \<open>tensorflow.NewTensor\<close>, the build of the preprocessing graph, the creation
  of either session, the preprocessing run or the classification run returns an error,
  \<open>main\<close> ends in \<open>log.Fatalf\<close> with the message of its own step followed by that error,
  and has printed the url line only; label lines are printed only by a run that returns.
  The message tells the step of \<open>main\<close>, of which there are five; the calls inside
  \<open>loadModel\<close> and inside \<open>normalizeImage\<close> share the message of their step.
\<close>

theorem C8_stage_errors_abort:
  assumes args: "2 \<le> length (Args w)"
  shows
  "((http_Get w (Args w ! 1) = Inl e1 \<longrightarrow>
      main srt w = ([PrintedUrl (Args w ! 1)], Fatal (''unable to get image from url: '' @ e1))) \<and>
   (http_Get w (Args w ! 1) = Inr b \<longrightarrow>
      (loadModel w = (g, ls, Some e2) \<longrightarrow>
         main srt w = ([PrintedUrl (Args w ! 1)], Fatal (''unable to load model: '' @ e2))) \<and>
      (loadModel w = (Some mg, ls, None) \<longrightarrow>
         (normalizeImage w b = Inr (Inl e3) \<longrightarrow>
            main srt w =
              ([PrintedUrl (Args w ! 1)], Fatal (''unable to make a tensor from image: '' @ e3))) \<and>
         (normalizeImage w b = Inr (Inr t) \<longrightarrow>
            (NewSession w mg = Some e4 \<longrightarrow>
               main srt w = ([PrintedUrl (Args w ! 1)], Fatal (''could not init session: '' @ e4))) \<and>
            (NewSession w mg = None \<longrightarrow>
               Run w mg [(Operation_Output (Graph_Operation mg ''input'') 0, t)]
                        [Operation_Output (Graph_Operation mg ''output'') 0] = Inl e5 \<longrightarrow>
               main srt w = ([PrintedUrl (Args w ! 1)], Fatal (''could not run inference: '' @ e5))))))) \<and>
   ((NewTensor w (body_bytes b) = Inl n1 \<longrightarrow> normalizeImage w b = Inr (Inl n1)) \<and>
    (NewTensor w (body_bytes b) = Inr t0 \<longrightarrow>
      (scope_Err w normalize_graph = Some n2 \<longrightarrow> normalizeImage w b = Inr (Inl n2)) \<and>
      (scope_Err w normalize_graph = None \<longrightarrow>
         (NewSession w normalize_graph = Some n3 \<longrightarrow> normalizeImage w b = Inr (Inl n3)) \<and>
         (NewSession w normalize_graph = None \<longrightarrow>
            Run w normalize_graph [(normalize_input, t0)] [normalize_output] = Inl n4 \<longrightarrow>
            normalizeImage w b = Inr (Inl n4))))) \<and>
   ((ReadFile w graphFile = Inl m1 \<longrightarrow> loadModel w = (None, [], Some m1)) \<and>
    (ReadFile w graphFile = Inr model \<longrightarrow>
      (Import w model = Inl m2 \<longrightarrow> loadModel w = (None, [], Some m2)) \<and>
      (Import w model = Inr graph \<longrightarrow>
         (Open_Scanner w labelsFile = Inl m3 \<longrightarrow> loadModel w = (None, [], Some m3)) \<and>
         (Open_Scanner w labelsFile = Inr sc \<longrightarrow>
            loadModel w = (Some graph, scan_lines sc, scan_Err sc))))) \<and>
   (PrintedLabel l \<in> set (fst (main srt w)) \<longrightarrow> snd (main srt w) = Returned)"
  using main_stage_errors [OF args, of e1 srt b g ls e2 mg e3 t e4 e5]
    normalizeImage_stage_errors [of w b n1 t0 n2 n3 n4]
    loadModel_stage_errors [where w = w and ?e1.0 = m1 and model = model and ?e2.0 = m2
      and graph = graph and ?e3.0 = m3 and sc = sc]
    main_labels_only_when_Returned [of l srt w]
  by blast

theorem C8_witness:
  "2 \<le> length (Args (example_world\<lparr>Run := \<lambda>g feeds fetches.
        if g = example_model then Inl ''no such operation'' else Run example_world g feeds fetches\<rparr>)) \<and>
   main insertionSort (example_world\<lparr>Run := \<lambda>g feeds fetches.
        if g = example_model then Inl ''no such operation'' else Run example_world g feeds fetches\<rparr>) =
     ([PrintedUrl ''http://example.org/cat.jpg''], Fatal ''could not run inference: no such operation'') \<and>
   2 \<le> length (Args (example_world\<lparr>scope_Err := \<lambda>g. Some ''bad shape''\<rparr>)) \<and>
   main insertionSort (example_world\<lparr>scope_Err := \<lambda>g. Some ''bad shape''\<rparr>) =
     ([PrintedUrl ''http://example.org/cat.jpg''],
      Fatal ''unable to make a tensor from image: bad shape'')"
proof -
  let ?w1 = "example_world\<lparr>Run := \<lambda>g feeds fetches.
        if g = example_model then Inl ''no such operation'' else Run example_world g feeds fetches\<rparr>"
  let ?w2 = "example_world\<lparr>scope_Err := \<lambda>g. Some ''bad shape''\<rparr>"
  let ?b = "\<lparr>body_bytes = ''JFIF'', body_err = None\<rparr>"
  have a1: "2 \<le> length (Args ?w1)" and a2: "2 \<le> length (Args ?w2)"
    by (simp_all add: example_world_def)
  have n1: "normalizeImage ?w1 ?b = Inr (Inr (FloatTensor [1, 1, 1, 3] [0, 0, 0]))"
    by (simp add: pipeline_eval)
  have n2: "normalizeImage ?w2 ?b = Inr (Inl ''bad shape'')"
    by (simp add: pipeline_eval)
  have l1: "loadModel ?w1 = (Some example_model, [''a'', ''b'', ''c'', ''d'', ''e'', ''f''], None)"
    and l2: "loadModel ?w2 = (Some example_model, [''a'', ''b'', ''c'', ''d'', ''e'', ''f''], None)"
    by (simp_all add: pipeline_eval)
  show ?thesis
    using C8_stage_errors_abort [where w = ?w1 and srt = insertionSort and b = ?b
        and mg = example_model and ls = "[''a'', ''b'', ''c'', ''d'', ''e'', ''f'']"
        and t = "FloatTensor [1, 1, 1, 3] [0, 0, 0]" and ?e5.0 = "''no such operation''", OF a1]
      C8_stage_errors_abort [where w = ?w2 and srt = insertionSort and b = ?b
        and mg = example_model and ls = "[''a'', ''b'', ''c'', ''d'', ''e'', ''f'']"
        and ?e3.0 = "''bad shape''", OF a2]
      a1 a2 n1 n2 l1 l2
    by (simp add: example_world_def Graph_Operation_def Operation_Output_def example_model_def)
qed

subsection \<open>C10: the error of copying the body is dropped\<close>

text \<open>
  Claim C10: when the body's reader fails after the bytes \<open>bs\<close>, \<open>io.Copy\<close> returns the
  error and \<open>normalizeImage\<close> drops it: the function goes on to build the tensor from
  \<open>bs\<close> (which may be empty), and its result is the one it gives for a body that ends
  after \<open>bs\<close> without an error.
\<close>

theorem C10_copy_error_discarded:
  "io_Copy [] \<lparr>body_bytes = bs, body_err = Some e\<rparr> = (bs, length bs, Some e) \<and>
   normalizeImage w \<lparr>body_bytes = bs, body_err = Some e\<rparr> =
     normalizeImage w \<lparr>body_bytes = bs, body_err = None\<rparr> \<and>
   normalizeImage w \<lparr>body_bytes = bs, body_err = Some e\<rparr> =
     (case NewTensor w bs of
        Inl err \<Rightarrow> Inr (Inl err)
      | Inr tensor \<Rightarrow>
     (case scope_Err w normalize_graph of
        Some err \<Rightarrow> Inr (Inl err)
      | None \<Rightarrow>
     (case NewSession w normalize_graph of
        Some err \<Rightarrow> Inr (Inl err)
      | None \<Rightarrow>
     (case Run w normalize_graph [(normalize_input, tensor)] [normalize_output] of
        Inl err \<Rightarrow> Inr (Inl err)
      | Inr normalized \<Rightarrow>
     (case go_index normalized 0 of
        Inl p \<Rightarrow> Inl p
      | Inr t \<Rightarrow> Inr (Inr t))))))"
  by (simp add: io_Copy_def normalizeImage_eq)

theorem C10_witness:
  "normalizeImage example_world \<lparr>body_bytes = ''JF'', body_err = Some ''unexpected EOF''\<rparr> =
     normalizeImage example_world \<lparr>body_bytes = ''JF'', body_err = None\<rparr> \<and>
   normalizeImage example_world \<lparr>body_bytes = ''JF'', body_err = Some ''unexpected EOF''\<rparr> =
     Inr (Inr (FloatTensor [1, 1, 1, 3] [0, 0, 0])) \<and>
   normalizeImage example_world \<lparr>body_bytes = [], body_err = Some ''connection reset''\<rparr> =
     Inr (Inr (FloatTensor [1, 1, 1, 3] [0, 0, 0]))"
  using C10_copy_error_discarded [of "''JF''" "''unexpected EOF''" example_world]
    C10_copy_error_discarded [of "[]" "''connection reset''" example_world]
  by (simp add: normalizeImage_eq example_world_def example_model_neq go_index_def)

end
